theory Spec2Isabelle
  imports Main "HOL-Library.Word" "HOL-Library.Signed_Division"
begin

section \<open>Build configuration and C types\<close>

text \<open>
  \<^verbatim>\<open>thread.c\<close> selects its implementation at build time: every function body is an
  \<^verbatim>\<open>#ifdef _WIN32 ... #else ... #endif\<close>, and \<^verbatim>\<open>thread_cancel\<close> has a nested
  \<^verbatim>\<open>#ifdef HAVE_PTHREAD_CANCEL\<close>. The two macros are the fields of \<open>config\<close>; each modelled
  function takes the configuration and branches where the preprocessor does.

  Integer widths are those of an LP64 / LLP64 target: \<^verbatim>\<open>int\<close> and \<^verbatim>\<open>unsigned int\<close> and
  \<^verbatim>\<open>DWORD\<close> have 32 bits, \<^verbatim>\<open>long\<close>, \<^verbatim>\<open>time_t\<close>, \<^verbatim>\<open>suseconds_t\<close> on the POSIX path and all handles
  and pointers have 64 bits.
\<close>

record config =
  win32 :: bool
  have_pthread_cancel :: bool

type_synonym c_int = "32 word"
type_synonym c_uint = "32 word"
type_synonym c_long = "64 word"
type_synonym dword = "32 word"
type_synonym handle = "64 word"
type_synonym addr = "64 word"

text \<open>The constants of \<^verbatim>\<open>windows.h\<close> that the file uses.\<close>

definition WAIT_OBJECT_0 :: dword where "WAIT_OBJECT_0 = 0"
definition WAIT_TIMEOUT :: dword where "WAIT_TIMEOUT = 258"
definition INFINITE :: dword where "INFINITE = 4294967295"

record timeval =
  tv_sec :: c_long
  tv_usec :: c_long

text \<open>\<^verbatim>\<open>struct timespec\<close>; its fields \<^verbatim>\<open>tv_sec\<close> and \<^verbatim>\<open>tv_nsec\<close> carry the prefix \<open>ts_\<close> here.\<close>

record timespec =
  ts_tv_sec :: c_long
  ts_tv_nsec :: c_long

section \<open>The operating system\<close>

text \<open>
  Every primitive of the host that \<^verbatim>\<open>thread.c\<close> calls is logged, with its arguments, in
  the order of the calls.
\<close>

datatype os_call =
    CreateThread_call addr addr
  | WaitForSingleObject_call handle dword
  | CreateSemaphore_call c_int c_int
  | ReleaseSemaphore_call handle c_int
  | EnterCriticalSection_call addr
  | LeaveCriticalSection_call addr
  | pthread_create_call addr addr addr
  | pthread_kill_call handle c_int
  | pthread_cancel_call handle
  | pthread_mutex_lock_call addr
  | pthread_mutex_unlock_call addr
  | pthread_cond_init_call addr
  | pthread_cond_signal_call addr
  | pthread_cond_wait_call addr addr
  | pthread_cond_timedwait_call addr addr timespec
  | gettimeofday_call

text \<open>A Win32 counting semaphore: its current count and the maximum given at creation.\<close>

record semaphore =
  permits :: nat
  maximum :: nat

text \<open>
  The world as the calling thread sees it: the log of primitive calls, the stores made
  to \<^verbatim>\<open>THREAD_T\<close> locations and the contents of those locations, the \<^verbatim>\<open>sem\<close> field of each
  Windows \<^verbatim>\<open>cond_t\<close>, the mutexes the calling thread owns, and the kernel's semaphores.
\<close>

record world =
  trace :: "os_call list"
  stores :: "(addr \<times> handle) list"
  thread_mem :: "addr \<Rightarrow> handle"
  cond_sem :: "addr \<Rightarrow> handle"
  mutex_owned :: "addr \<Rightarrow> bool"
  semaphores :: "handle \<rightharpoonup> semaphore"

text \<open>
  What the host answers depends on the rest of the system (other threads, resources), so
  the answers are a parameter: one field for each primitive whose result the code uses.
  \<open>pthread_create_returns\<close> is the status together with the thread id the call has stored
  in its first argument, if it stored one.
\<close>

record os =
  CreateThread_returns :: handle
  CreateSemaphore_returns :: handle
  WaitForSingleObject_returns :: dword
  pthread_create_returns :: "c_int \<times> handle option"
  pthread_kill_returns :: c_int
  pthread_cancel_returns :: c_int
  pthread_cond_signal_returns :: c_int
  pthread_cond_wait_returns :: c_int
  pthread_cond_timedwait_returns :: c_int
  gettimeofday_returns :: timeval

definition logged :: "os_call \<Rightarrow> world \<Rightarrow> world" where
  "logged c w = w\<lparr>trace := trace w @ [c]\<rparr>"

definition store_thread :: "addr \<Rightarrow> handle \<Rightarrow> world \<Rightarrow> world" where
  "store_thread p v w =
     w\<lparr>stores := stores w @ [(p, v)], thread_mem := (thread_mem w)(p := v)\<rparr>"

definition CreateThread :: "os \<Rightarrow> addr \<Rightarrow> addr \<Rightarrow> world \<Rightarrow> handle \<times> world" where
  "CreateThread env start_routine param w =
     (CreateThread_returns env, logged (CreateThread_call start_routine param) w)"

text \<open>
  \<^verbatim>\<open>CreateSemaphore(NULL, initial, maximum, NULL)\<close>: a null handle on failure, otherwise a
  handle to a new semaphore with the given counts.
\<close>

definition CreateSemaphore :: "os \<Rightarrow> c_int \<Rightarrow> c_int \<Rightarrow> world \<Rightarrow> handle \<times> world" where
  "CreateSemaphore env initial maxi w =
     (let h = CreateSemaphore_returns env; w1 = logged (CreateSemaphore_call initial maxi) w
      in if h = 0 then (0, w1)
         else (h, w1\<lparr>semaphores := (semaphores w1)(h \<mapsto>
                 \<lparr>permits = nat (sint initial), maximum = nat (sint maxi)\<rparr>)\<rparr>))"

text \<open>
  \<^verbatim>\<open>ReleaseSemaphore(h, n, NULL)\<close> adds \<open>n\<close> to the count and returns TRUE; it returns
  FALSE and changes nothing when the handle names no semaphore or the count would exceed
  the maximum.
\<close>

definition ReleaseSemaphore :: "handle \<Rightarrow> c_int \<Rightarrow> world \<Rightarrow> c_int \<times> world" where
  "ReleaseSemaphore h n w =
     (let w1 = logged (ReleaseSemaphore_call h n) w
      in case semaphores w1 h of
           None \<Rightarrow> (0, w1)
         | Some s \<Rightarrow>
             if 0 < sint n \<and> permits s + nat (sint n) \<le> maximum s
             then (1, w1\<lparr>semaphores := (semaphores w1)(h \<mapsto> s\<lparr>permits := permits s + nat (sint n)\<rparr>)\<rparr>)
             else (0, w1))"

text \<open>
  \<^verbatim>\<open>WaitForSingleObject(h, ms)\<close> blocks the caller; what it returns is the host's answer.
  A wait on a semaphore that returns \<open>WAIT_OBJECT_0\<close> has consumed one permit.
\<close>

definition WaitForSingleObject :: "os \<Rightarrow> handle \<Rightarrow> dword \<Rightarrow> world \<Rightarrow> dword \<times> world" where
  "WaitForSingleObject env h ms w =
     (let res = WaitForSingleObject_returns env; w1 = logged (WaitForSingleObject_call h ms) w
      in case semaphores w1 h of
           None \<Rightarrow> (res, w1)
         | Some s \<Rightarrow>
             if res = WAIT_OBJECT_0
             then (res, w1\<lparr>semaphores := (semaphores w1)(h \<mapsto> s\<lparr>permits := permits s - 1\<rparr>)\<rparr>)
             else (res, w1))"

definition EnterCriticalSection :: "addr \<Rightarrow> world \<Rightarrow> world" where
  "EnterCriticalSection m w =
     (logged (EnterCriticalSection_call m) w)\<lparr>mutex_owned := (mutex_owned w)(m := True)\<rparr>"

definition LeaveCriticalSection :: "addr \<Rightarrow> world \<Rightarrow> world" where
  "LeaveCriticalSection m w =
     (logged (LeaveCriticalSection_call m) w)\<lparr>mutex_owned := (mutex_owned w)(m := False)\<rparr>"

text \<open>
  \<^verbatim>\<open>pthread_create\<close> returns its status; on success it has stored the new thread's id in
  \<^verbatim>\<open>*thread\<close>.
\<close>

definition pthread_create :: "os \<Rightarrow> addr \<Rightarrow> addr \<Rightarrow> addr \<Rightarrow> world \<Rightarrow> c_int \<times> world" where
  "pthread_create env thread start_routine arg w =
     (let w1 = logged (pthread_create_call thread start_routine arg) w
      in case pthread_create_returns env of
           (res, None) \<Rightarrow> (res, w1)
         | (res, Some tid) \<Rightarrow> (res, store_thread thread tid w1))"

definition pthread_kill :: "os \<Rightarrow> handle \<Rightarrow> c_int \<Rightarrow> world \<Rightarrow> c_int \<times> world" where
  "pthread_kill env thread sig w = (pthread_kill_returns env, logged (pthread_kill_call thread sig) w)"

definition pthread_cancel :: "os \<Rightarrow> handle \<Rightarrow> world \<Rightarrow> c_int \<times> world" where
  "pthread_cancel env thread w = (pthread_cancel_returns env, logged (pthread_cancel_call thread) w)"

definition pthread_mutex_lock :: "addr \<Rightarrow> world \<Rightarrow> world" where
  "pthread_mutex_lock m w =
     (logged (pthread_mutex_lock_call m) w)\<lparr>mutex_owned := (mutex_owned w)(m := True)\<rparr>"

definition pthread_mutex_unlock :: "addr \<Rightarrow> world \<Rightarrow> world" where
  "pthread_mutex_unlock m w =
     (logged (pthread_mutex_unlock_call m) w)\<lparr>mutex_owned := (mutex_owned w)(m := False)\<rparr>"

definition pthread_cond_signal :: "os \<Rightarrow> addr \<Rightarrow> world \<Rightarrow> c_int \<times> world" where
  "pthread_cond_signal env cond w =
     (pthread_cond_signal_returns env, logged (pthread_cond_signal_call cond) w)"

text \<open>
  \<^verbatim>\<open>pthread_cond_wait\<close> and \<^verbatim>\<open>pthread_cond_timedwait\<close> release the mutex while the caller
  is blocked and have locked it again when they return; an error found on entry returns
  before the mutex is touched. Either way the caller owns the mutex afterwards exactly if
  it owned it before.
\<close>

definition pthread_cond_wait :: "os \<Rightarrow> addr \<Rightarrow> addr \<Rightarrow> world \<Rightarrow> c_int \<times> world" where
  "pthread_cond_wait env cond m w =
     (pthread_cond_wait_returns env, logged (pthread_cond_wait_call cond m) w)"

definition pthread_cond_timedwait :: "os \<Rightarrow> addr \<Rightarrow> addr \<Rightarrow> timespec \<Rightarrow> world \<Rightarrow> c_int \<times> world" where
  "pthread_cond_timedwait env cond m abstime w =
     (pthread_cond_timedwait_returns env, logged (pthread_cond_timedwait_call cond m abstime) w)"

definition gettimeofday :: "os \<Rightarrow> world \<Rightarrow> timeval \<times> world" where
  "gettimeofday env w = (gettimeofday_returns env, logged gettimeofday_call w)"

section \<open>The functions of thread.c\<close>

text \<open>
  Each function takes the build configuration, the host's answers and the world, and
  returns its C return value with the world it leaves.
\<close>

definition thread_new :: "config \<Rightarrow> os \<Rightarrow> addr \<Rightarrow> addr \<Rightarrow> addr \<Rightarrow> world \<Rightarrow> c_int \<times> world" where
  "thread_new cfg env thread thread_func data w =
     (if win32 cfg then
        (let (th, w1) = CreateThread env thread_func data w
         in if th = 0 then (- 1, w1)
            else (0, store_thread thread th w1))
      else pthread_create env thread thread_func data w)"

definition thread_alive :: "config \<Rightarrow> os \<Rightarrow> handle \<Rightarrow> world \<Rightarrow> c_int \<times> world" where
  "thread_alive cfg env thread w =
     (if thread = 0 then (0, w)
      else if win32 cfg then
        (let (res, w1) = WaitForSingleObject env thread 0 w
         in (if res = WAIT_TIMEOUT then 1 else 0, w1))
      else
        (let (res, w1) = pthread_kill env thread 0 w
         in (if res = 0 then 1 else 0, w1)))"

definition thread_cancel :: "config \<Rightarrow> os \<Rightarrow> handle \<Rightarrow> world \<Rightarrow> c_int \<times> world" where
  "thread_cancel cfg env thread w =
     (if win32 cfg then (- 1, w)
      else if have_pthread_cancel cfg then pthread_cancel env thread w
      else (- 1, w))"

definition mutex_lock :: "config \<Rightarrow> addr \<Rightarrow> world \<Rightarrow> world" where
  "mutex_lock cfg mutex w =
     (if win32 cfg then EnterCriticalSection mutex w else pthread_mutex_lock mutex w)"

definition mutex_unlock :: "config \<Rightarrow> addr \<Rightarrow> world \<Rightarrow> world" where
  "mutex_unlock cfg mutex w =
     (if win32 cfg then LeaveCriticalSection mutex w else pthread_mutex_unlock mutex w)"

definition cond_init :: "config \<Rightarrow> os \<Rightarrow> addr \<Rightarrow> world \<Rightarrow> world" where
  "cond_init cfg env cond w =
     (if win32 cfg then
        (let (h, w1) = CreateSemaphore env 0 32767 w
         in w1\<lparr>cond_sem := (cond_sem w1)(cond := h)\<rparr>)
      else logged (pthread_cond_init_call cond) w)"

definition cond_signal :: "config \<Rightarrow> os \<Rightarrow> addr \<Rightarrow> world \<Rightarrow> c_int \<times> world" where
  "cond_signal cfg env cond w =
     (if win32 cfg then
        (let (ok, w1) = ReleaseSemaphore (cond_sem w cond) 1 w
         in (if ok = 0 then - 1 else 0, w1))
      else pthread_cond_signal env cond w)"

definition cond_wait :: "config \<Rightarrow> os \<Rightarrow> addr \<Rightarrow> addr \<Rightarrow> world \<Rightarrow> c_int \<times> world" where
  "cond_wait cfg env cond mutex w =
     (if win32 cfg then
        (let w1 = mutex_unlock cfg mutex w;
             (res, w2) = WaitForSingleObject env (cond_sem w1 cond) INFINITE w1
         in (if res = WAIT_OBJECT_0 then 0 else - 1, w2))
      else pthread_cond_wait env cond mutex w)"

text \<open>
  Lines 212 to 215, the deadline of the POSIX timed wait. \<^verbatim>\<open>timeout_ms / 1000\<close> and
  \<^verbatim>\<open>1000 * 1000 * (timeout_ms % 1000)\<close> are computed in \<^verbatim>\<open>unsigned int\<close> and then converted
  to \<^verbatim>\<open>long\<close>; the sums are \<^verbatim>\<open>long\<close> and wrap here where C leaves signed overflow undefined;
  \<^verbatim>\<open>/\<close> and \<^verbatim>\<open>%\<close> on \<^verbatim>\<open>long\<close> truncate towards zero.
\<close>

definition long_div :: "c_long \<Rightarrow> c_long \<Rightarrow> c_long" where
  "long_div a b = word_of_int (sint a sdiv sint b)"

definition long_rem :: "c_long \<Rightarrow> c_long \<Rightarrow> c_long" where
  "long_rem a b = word_of_int (sint a smod sint b)"

definition deadline :: "timeval \<Rightarrow> c_uint \<Rightarrow> timespec" where
  "deadline now timeout_ms =
     (let sec0 = tv_sec now + ucast (timeout_ms div 1000);
          nsec0 = tv_usec now * 1000 + ucast (1000 * 1000 * (timeout_ms mod 1000));
          sec1 = sec0 + long_div nsec0 (1000 * 1000 * 1000);
          nsec1 = long_rem nsec0 (1000 * 1000 * 1000)
      in \<lparr>ts_tv_sec = sec1, ts_tv_nsec = nsec1\<rparr>)"

definition cond_wait_timeout :: "config \<Rightarrow> os \<Rightarrow> addr \<Rightarrow> addr \<Rightarrow> c_uint \<Rightarrow> world \<Rightarrow> c_int \<times> world" where
  "cond_wait_timeout cfg env cond mutex timeout_ms w =
     (if win32 cfg then
        (let w1 = mutex_unlock cfg mutex w;
             (res, w2) = WaitForSingleObject env (cond_sem w1 cond) timeout_ms w1
         in (if res = WAIT_OBJECT_0 \<or> res = WAIT_TIMEOUT then 0 else - 1, w2))
      else
        (let (now, w1) = gettimeofday env w
         in pthread_cond_timedwait env cond mutex (deadline now timeout_ms) w1))"

section \<open>thread_once under concurrent callers\<close>

text \<open>
  Any number of threads call \<^verbatim>\<open>thread_once\<close> on one guard at the same time. The system is a
  state machine: the guard, the counter of the initializer, and one program counter for
  each calling thread; a scheduler picks the thread that takes the next atomic step.

  The program counters of the Windows path (lines 135 to 142):
  \<^item> \<open>Enter\<close>: about to execute \<^verbatim>\<open>InterlockedExchange(&(once_control->lock), 1)\<close>;
  \<^item> \<open>Sleeping\<close>: the exchange returned nonzero, the thread is in \<^verbatim>\<open>Sleep(1)\<close>;
  \<^item> \<open>TestState\<close>: about to read \<^verbatim>\<open>once_control->state\<close> for \<^verbatim>\<open>if (!once_control->state)\<close>;
  \<^item> \<open>SetState\<close>: about to execute \<^verbatim>\<open>once_control->state = 1\<close>;
  \<^item> \<open>CallInit\<close>: about to call \<^verbatim>\<open>init_routine()\<close>;
  \<^item> \<open>InInit v\<close>: inside the initializer, which has read the value \<open>v\<close> of the counter and
    is about to store \<open>v + 1\<close> and return;
  \<^item> \<open>Release\<close>: about to execute \<^verbatim>\<open>InterlockedExchange(&(once_control->lock), 0)\<close>;
  \<^item> \<open>Returned\<close>: \<^verbatim>\<open>thread_once\<close> has returned.

  On the POSIX path \<^verbatim>\<open>thread_once\<close> is one call of \<^verbatim>\<open>pthread_once\<close>. Its guard is
  \<open>ONCE_INIT\<close> until the first caller arrives, \<open>ONCE_RUNNING\<close> while that caller runs the
  initializer, and \<open>ONCE_DONE\<close> from then on; a caller that finds \<open>ONCE_RUNNING\<close> is
  blocked (it stays at \<open>Enter\<close>), and \<open>Finish\<close> is the point where the initializer has
  returned into \<^verbatim>\<open>pthread_once\<close>.
\<close>

datatype pthread_once_t = ONCE_INIT | ONCE_RUNNING | ONCE_DONE

datatype pc =
    Enter | Sleeping | TestState | SetState | CallInit | InInit int
  | Release | Finish | Returned

text \<open>
  \<open>lock\<close> and \<open>state\<close> are the fields of the Windows \<^verbatim>\<open>thread_once_t\<close>, \<open>ponce\<close> is the POSIX
  guard. \<open>counter\<close> is the variable the initializer increments. \<open>init_calls\<close> and
  \<open>init_returns\<close> count how often the initializer has been entered and has returned.
\<close>

record once_sys =
  lock :: "32 word"
  state :: c_int
  ponce :: pthread_once_t
  counter :: int
  init_calls :: nat
  init_returns :: nat
  pcs :: "pc list"

text \<open>\<^verbatim>\<open>InterlockedExchange(&(once_control->lock), v)\<close>: stores \<open>v\<close>, returns the old value.\<close>

definition InterlockedExchange :: "32 word \<Rightarrow> once_sys \<Rightarrow> 32 word \<times> once_sys" where
  "InterlockedExchange v s = (lock s, s\<lparr>lock := v\<rparr>)"

text \<open>One atomic step of a thread at the given program counter.\<close>

fun thread_step :: "config \<Rightarrow> pc \<Rightarrow> once_sys \<Rightarrow> pc \<times> once_sys" where
  "thread_step cfg Enter s =
     (if win32 cfg then
        (let (old, s1) = InterlockedExchange 1 s
         in if old \<noteq> 0 then (Sleeping, s1) else (TestState, s1))
      else
        (case ponce s of
           ONCE_INIT \<Rightarrow> (CallInit, s\<lparr>ponce := ONCE_RUNNING\<rparr>)
         | ONCE_RUNNING \<Rightarrow> (Enter, s)
         | ONCE_DONE \<Rightarrow> (Returned, s)))"
| "thread_step cfg Sleeping s = (Enter, s)"
| "thread_step cfg TestState s = (if state s = 0 then (SetState, s) else (Release, s))"
| "thread_step cfg SetState s = (CallInit, s\<lparr>state := 1\<rparr>)"
| "thread_step cfg CallInit s = (InInit (counter s), s\<lparr>init_calls := init_calls s + 1\<rparr>)"
| "thread_step cfg (InInit v) s =
     (if win32 cfg then Release else Finish,
      s\<lparr>counter := v + 1, init_returns := init_returns s + 1\<rparr>)"
| "thread_step cfg Release s = (Returned, snd (InterlockedExchange 0 s))"
| "thread_step cfg Finish s = (Returned, s\<lparr>ponce := ONCE_DONE\<rparr>)"
| "thread_step cfg Returned s = (Returned, s)"

text \<open>Thread \<open>i\<close> takes a step; a number that names no thread changes nothing.\<close>

definition step :: "config \<Rightarrow> nat \<Rightarrow> once_sys \<Rightarrow> once_sys" where
  "step cfg i s =
     (if i < length (pcs s) then
        (let (p, s1) = thread_step cfg (pcs s ! i) s
         in s1\<lparr>pcs := (pcs s1)[i := p]\<rparr>)
      else s)"

text \<open>A schedule is the list of the threads that step, in order.\<close>

fun run :: "config \<Rightarrow> nat list \<Rightarrow> once_sys \<Rightarrow> once_sys" where
  "run cfg [] s = s"
| "run cfg (i # sched) s = run cfg sched (step cfg i s)"

text \<open>\<open>K\<close> callers at the entry of \<^verbatim>\<open>thread_once\<close>, the guard not yet run, the counter 0.\<close>

definition once_start :: "nat \<Rightarrow> once_sys" where
  "once_start K =
     \<lparr>lock = 0, state = 0, ponce = ONCE_INIT, counter = 0, init_calls = 0,
      init_returns = 0, pcs = replicate K Enter\<rparr>"

subsection \<open>The invariant\<close>

text \<open>A thread inside the guarded region.\<close>

fun inside :: "config \<Rightarrow> pc \<Rightarrow> bool" where
  "inside cfg Enter = False"
| "inside cfg Sleeping = False"
| "inside cfg Returned = False"
| "inside cfg CallInit = True"
| "inside cfg (InInit v) = True"
| "inside cfg Finish = (\<not> win32 cfg)"
| "inside cfg p = win32 cfg"

definition fresh :: "once_sys \<Rightarrow> bool" where
  "fresh s = (counter s = 0 \<and> init_calls s = 0 \<and> init_returns s = 0)"

definition completed :: "once_sys \<Rightarrow> bool" where
  "completed s = (counter s = 1 \<and> init_calls s = 1 \<and> init_returns s = 1)"

definition marked :: "config \<Rightarrow> once_sys \<Rightarrow> bool" where
  "marked cfg s = (if win32 cfg then state s \<noteq> 0 else ponce s = ONCE_RUNNING)"

text \<open>What holds of the shared state while some thread is at a given program counter.\<close>

fun local_ok :: "config \<Rightarrow> once_sys \<Rightarrow> pc \<Rightarrow> bool" where
  "local_ok cfg s Enter = True"
| "local_ok cfg s Sleeping = win32 cfg"
| "local_ok cfg s TestState =
     (win32 cfg \<and> (if state s = 0 then fresh s else completed s))"
| "local_ok cfg s SetState = (win32 cfg \<and> state s = 0 \<and> fresh s)"
| "local_ok cfg s CallInit = (marked cfg s \<and> fresh s)"
| "local_ok cfg s (InInit v) =
     (marked cfg s \<and> v = 0 \<and> counter s = 0 \<and> init_calls s = 1 \<and> init_returns s = 0)"
| "local_ok cfg s Release = (win32 cfg \<and> state s \<noteq> 0 \<and> completed s)"
| "local_ok cfg s Finish = (\<not> win32 cfg \<and> ponce s = ONCE_RUNNING \<and> completed s)"
| "local_ok cfg s Returned =
     ((if win32 cfg then state s \<noteq> 0 else ponce s = ONCE_DONE) \<and> completed s)"

text \<open>No thread is inside: the lock is free, or the POSIX guard is not running.\<close>

definition quiet :: "config \<Rightarrow> once_sys \<Rightarrow> bool" where
  "quiet cfg s = (if win32 cfg then lock s = 0 else ponce s \<noteq> ONCE_RUNNING)"

definition settled :: "config \<Rightarrow> once_sys \<Rightarrow> bool" where
  "settled cfg s =
     (if win32 cfg then (if state s = 0 then fresh s else completed s)
      else (if ponce s = ONCE_INIT then fresh s else completed s))"

definition once_inv :: "config \<Rightarrow> once_sys \<Rightarrow> bool" where
  "once_inv cfg s =
     ((\<forall>i < length (pcs s). local_ok cfg s (pcs s ! i)) \<and>
      (\<forall>i < length (pcs s). \<forall>j < length (pcs s).
          inside cfg (pcs s ! i) \<and> inside cfg (pcs s ! j) \<longrightarrow> i = j) \<and>
      (quiet cfg s \<longrightarrow> settled cfg s \<and> (\<forall>i < length (pcs s). \<not> inside cfg (pcs s ! i))) \<and>
      (lock s = 0 \<or> lock s = 1) \<and> init_calls s \<le> 1)"

section \<open>Configurations and worlds used in the examples\<close>

definition windows_build :: config where
  "windows_build = \<lparr>win32 = True, have_pthread_cancel = False\<rparr>"

definition posix_build :: config where
  "posix_build = \<lparr>win32 = False, have_pthread_cancel = True\<rparr>"

definition posix_build_no_cancel :: config where
  "posix_build_no_cancel = \<lparr>win32 = False, have_pthread_cancel = False\<rparr>"

text \<open>A world in which nothing has happened yet.\<close>

definition idle_world :: world where
  "idle_world =
     \<lparr>trace = [], stores = [], thread_mem = (\<lambda>_. 0), cond_sem = (\<lambda>_. 0),
      mutex_owned = (\<lambda>_. False), semaphores = Map.empty\<rparr>"

text \<open>The Linux value of \<^verbatim>\<open>ETIMEDOUT\<close>, which \<^verbatim>\<open>pthread_cond_timedwait\<close> returns on a timeout.\<close>

definition ETIMEDOUT :: c_int where "ETIMEDOUT = 110"

text \<open>A host whose every call succeeds; the examples change single answers.\<close>

definition friendly_os :: os where
  "friendly_os =
     \<lparr>CreateThread_returns = 64, CreateSemaphore_returns = 128,
      WaitForSingleObject_returns = WAIT_OBJECT_0,
      pthread_create_returns = (0, Some 64),
      pthread_kill_returns = 0, pthread_cancel_returns = 0,
      pthread_cond_signal_returns = 0, pthread_cond_wait_returns = 0,
      pthread_cond_timedwait_returns = 0,
      gettimeofday_returns = \<lparr>tv_sec = 1700000000, tv_usec = 999999\<rparr>\<rparr>"

text \<open>The Windows world after \<^verbatim>\<open>cond_init\<close> of the condition variable at address 40.\<close>

definition sem_world :: world where
  "sem_world = cond_init windows_build friendly_os 40 idle_world"

section \<open>Facts about the host primitives\<close>

lemma trace_WaitForSingleObject:
  "trace (snd (WaitForSingleObject env h ms w)) = trace w @ [WaitForSingleObject_call h ms]"
  by (simp add: WaitForSingleObject_def logged_def Let_def split: option.split)

lemma fst_WaitForSingleObject:
  "fst (WaitForSingleObject env h ms w) = WaitForSingleObject_returns env"
  by (simp add: WaitForSingleObject_def Let_def split: option.split)

lemma mutex_owned_WaitForSingleObject:
  "mutex_owned (snd (WaitForSingleObject env h ms w)) = mutex_owned w"
  by (simp add: WaitForSingleObject_def logged_def Let_def split: option.split)

lemma sem_world_eq:
  "sem_world = idle_world\<lparr>trace := [CreateSemaphore_call 0 32767],
      cond_sem := (\<lambda>_. 0)(40 := 128),
      semaphores := [128 \<mapsto> \<lparr>permits = 0, maximum = 32767\<rparr>]\<rparr>"
  by (simp add: sem_world_def cond_init_def CreateSemaphore_def logged_def Let_def
      windows_build_def friendly_os_def idle_world_def)

section \<open>Threads\<close>

text \<open>
  C7. \<open>thread_new\<close> asks the host for a thread exactly once, whatever the answer (the
  log grows by the one creation call, so a failure is not retried). On the Windows path a
  non-null handle from \<^verbatim>\<open>CreateThread\<close> is stored in \<^verbatim>\<open>*thread\<close> and the result is 0, and a
  null handle gives -1. On the POSIX path a successful \<^verbatim>\<open>pthread_create\<close> (status 0, thread
  id stored) gives 0 with the id in \<^verbatim>\<open>*thread\<close>, and a nonzero status is returned as it is.
\<close>

theorem thread_new_status:
  "trace (snd (thread_new cfg env thread f d w)) =
     trace w @ [if win32 cfg then CreateThread_call f d else pthread_create_call thread f d] \<and>
   (win32 cfg \<and> CreateThread_returns env \<noteq> 0 \<longrightarrow>
      fst (thread_new cfg env thread f d w) = 0 \<and>
      thread_mem (snd (thread_new cfg env thread f d w)) thread = CreateThread_returns env) \<and>
   (win32 cfg \<and> CreateThread_returns env = 0 \<longrightarrow>
      fst (thread_new cfg env thread f d w) = - 1 \<and>
      fst (thread_new cfg env thread f d w) \<noteq> 0) \<and>
   (\<not> win32 cfg \<and> pthread_create_returns env = (0, Some tid) \<longrightarrow>
      fst (thread_new cfg env thread f d w) = 0 \<and>
      thread_mem (snd (thread_new cfg env thread f d w)) thread = tid) \<and>
   (\<not> win32 cfg \<and> fst (pthread_create_returns env) \<noteq> 0 \<longrightarrow>
      fst (thread_new cfg env thread f d w) = fst (pthread_create_returns env) \<and>
      fst (thread_new cfg env thread f d w) \<noteq> 0)"
  by (auto simp: thread_new_def CreateThread_def pthread_create_def logged_def store_thread_def
      Let_def split: prod.split option.split)

theorem thread_new_status_witness:
  "(win32 windows_build \<and> CreateThread_returns friendly_os \<noteq> 0) \<and>
   thread_new windows_build friendly_os 8 16 24 idle_world =
     (0, idle_world\<lparr>trace := [CreateThread_call 16 24], stores := [(8, 64)],
                     thread_mem := (\<lambda>_. 0)(8 := 64)\<rparr>) \<and>
   (win32 windows_build \<and> CreateThread_returns (friendly_os\<lparr>CreateThread_returns := 0\<rparr>) = 0) \<and>
   fst (thread_new windows_build (friendly_os\<lparr>CreateThread_returns := 0\<rparr>) 8 16 24 idle_world) = - 1 \<and>
   (\<not> win32 posix_build \<and> pthread_create_returns friendly_os = (0, Some 64)) \<and>
   fst (thread_new posix_build friendly_os 8 16 24 idle_world) = 0 \<and>
   thread_mem (snd (thread_new posix_build friendly_os 8 16 24 idle_world)) 8 = 64 \<and>
   (\<not> win32 posix_build \<and>
    fst (pthread_create_returns (friendly_os\<lparr>pthread_create_returns := (11, None)\<rparr>)) \<noteq> 0) \<and>
   thread_new posix_build (friendly_os\<lparr>pthread_create_returns := (11, None)\<rparr>) 8 16 24 idle_world =
     (11, idle_world\<lparr>trace := [pthread_create_call 8 16 24]\<rparr>)"
  using thread_new_status [of windows_build friendly_os 8 16 24 idle_world 64]
    thread_new_status [of windows_build "friendly_os\<lparr>CreateThread_returns := 0\<rparr>" 8 16 24 idle_world 64]
    thread_new_status [of posix_build friendly_os 8 16 24 idle_world 64]
    thread_new_status [of posix_build "friendly_os\<lparr>pthread_create_returns := (11, None)\<rparr>" 8 16 24 idle_world 64]
  by (simp add: windows_build_def posix_build_def idle_world_def friendly_os_def
      thread_new_def CreateThread_def pthread_create_def logged_def store_thread_def)

text \<open>
  C10. On the Windows path \<open>thread_new\<close> returns 0 exactly when \<^verbatim>\<open>CreateThread\<close> gave a
  non-null handle. In that case it makes one store, of that handle to \<^verbatim>\<open>*thread\<close>. When
  \<^verbatim>\<open>CreateThread\<close> fails it returns -1, makes no store, and every \<^verbatim>\<open>THREAD_T\<close> location,
  \<^verbatim>\<open>*thread\<close> among them, holds what it held before.
\<close>

theorem thread_new_windows_store:
  "win32 cfg \<Longrightarrow>
   (fst (thread_new cfg env thread f d w) = 0 \<longleftrightarrow> CreateThread_returns env \<noteq> 0) \<and>
   (CreateThread_returns env \<noteq> 0 \<longrightarrow>
      stores (snd (thread_new cfg env thread f d w)) =
        stores w @ [(thread, CreateThread_returns env)] \<and>
      thread_mem (snd (thread_new cfg env thread f d w)) =
        (thread_mem w)(thread := CreateThread_returns env)) \<and>
   (CreateThread_returns env = 0 \<longrightarrow>
      fst (thread_new cfg env thread f d w) = - 1 \<and>
      stores (snd (thread_new cfg env thread f d w)) = stores w \<and>
      thread_mem (snd (thread_new cfg env thread f d w)) = thread_mem w)"
  by (auto simp: thread_new_def CreateThread_def logged_def store_thread_def)

theorem thread_new_windows_store_witness:
  "win32 windows_build \<and>
   CreateThread_returns friendly_os \<noteq> 0 \<and>
   fst (thread_new windows_build friendly_os 8 16 24 idle_world) = 0 \<and>
   stores (snd (thread_new windows_build friendly_os 8 16 24 idle_world)) = [(8, 64)] \<and>
   thread_mem (snd (thread_new windows_build friendly_os 8 16 24 idle_world)) 8 = 64 \<and>
   CreateThread_returns (friendly_os\<lparr>CreateThread_returns := 0\<rparr>) = 0 \<and>
   fst (thread_new windows_build (friendly_os\<lparr>CreateThread_returns := 0\<rparr>) 8 16 24 idle_world) = - 1 \<and>
   stores (snd (thread_new windows_build (friendly_os\<lparr>CreateThread_returns := 0\<rparr>) 8 16 24 idle_world)) = [] \<and>
   thread_mem (snd (thread_new windows_build (friendly_os\<lparr>CreateThread_returns := 0\<rparr>) 8 16 24 idle_world)) 8 = 0"
  using thread_new_windows_store [of windows_build friendly_os 8 16 24 idle_world]
    thread_new_windows_store [of windows_build "friendly_os\<lparr>CreateThread_returns := 0\<rparr>" 8 16 24 idle_world]
  by (simp add: windows_build_def idle_world_def friendly_os_def)

text \<open>
  C6. For the null handle \<open>thread_alive\<close> returns 0 and leaves the world as it was: no
  primitive is called. For any other handle it makes exactly one query, a zero-timeout
  \<^verbatim>\<open>WaitForSingleObject\<close> on Windows and \<^verbatim>\<open>pthread_kill\<close> with signal 0 on POSIX, and returns 1
  if the answer says the thread still runs (\<open>WAIT_TIMEOUT\<close>, respectively 0) and 0 otherwise.
\<close>

theorem thread_alive_probe:
  "thread_alive cfg env 0 w = (0, w) \<and>
   (thread \<noteq> 0 \<longrightarrow>
      fst (thread_alive cfg env thread w) =
        (if win32 cfg then (if WaitForSingleObject_returns env = WAIT_TIMEOUT then 1 else 0)
         else (if pthread_kill_returns env = 0 then 1 else 0)) \<and>
      trace (snd (thread_alive cfg env thread w)) =
        trace w @ [if win32 cfg then WaitForSingleObject_call thread 0
                   else pthread_kill_call thread 0])"
  by (simp add: thread_alive_def pthread_kill_def logged_def split_def
      trace_WaitForSingleObject fst_WaitForSingleObject)

theorem thread_alive_probe_witness:
  "thread_alive windows_build (friendly_os\<lparr>WaitForSingleObject_returns := WAIT_TIMEOUT\<rparr>) 0 idle_world
     = (0, idle_world) \<and>
   (64 :: handle) \<noteq> 0 \<and>
   fst (thread_alive windows_build (friendly_os\<lparr>WaitForSingleObject_returns := WAIT_TIMEOUT\<rparr>) 64 idle_world) = 1 \<and>
   trace (snd (thread_alive windows_build (friendly_os\<lparr>WaitForSingleObject_returns := WAIT_TIMEOUT\<rparr>) 64 idle_world))
     = [WaitForSingleObject_call 64 0] \<and>
   fst (thread_alive posix_build (friendly_os\<lparr>pthread_kill_returns := 3\<rparr>) 64 idle_world) = 0 \<and>
   trace (snd (thread_alive posix_build (friendly_os\<lparr>pthread_kill_returns := 3\<rparr>) 64 idle_world))
     = [pthread_kill_call 64 0]"
  using thread_alive_probe [of windows_build "friendly_os\<lparr>WaitForSingleObject_returns := WAIT_TIMEOUT\<rparr>" idle_world 64]
    thread_alive_probe [of posix_build "friendly_os\<lparr>pthread_kill_returns := 3\<rparr>" idle_world 64]
  by (simp add: windows_build_def posix_build_def idle_world_def friendly_os_def)

text \<open>
  C5. On a build without cancellation support (the Windows path, and the POSIX path
  without \<^verbatim>\<open>HAVE_PTHREAD_CANCEL\<close>), \<open>thread_cancel\<close> returns -1 for every handle and does
  nothing else: no primitive is called and the world is as it was.
\<close>

theorem thread_cancel_unsupported:
  "win32 cfg \<or> \<not> have_pthread_cancel cfg \<Longrightarrow> thread_cancel cfg env thread w = (- 1, w)"
  by (auto simp: thread_cancel_def)

theorem thread_cancel_unsupported_witness:
  "(win32 windows_build \<or> \<not> have_pthread_cancel windows_build) \<and>
   thread_cancel windows_build friendly_os 64 idle_world = (- 1, idle_world) \<and>
   (win32 posix_build_no_cancel \<or> \<not> have_pthread_cancel posix_build_no_cancel) \<and>
   thread_cancel posix_build_no_cancel friendly_os 64 idle_world = (- 1, idle_world)"
  using thread_cancel_unsupported [of windows_build friendly_os 64 idle_world]
    thread_cancel_unsupported [of posix_build_no_cancel friendly_os 64 idle_world]
  by (simp add: windows_build_def posix_build_no_cancel_def)

section \<open>Condition variables\<close>

subsection \<open>Signal\<close>

lemma cond_signal_example_ok:
  "cond_signal windows_build friendly_os 40 sem_world =
     (0, sem_world\<lparr>trace := [CreateSemaphore_call 0 32767, ReleaseSemaphore_call 128 1],
           semaphores := [128 \<mapsto> \<lparr>permits = 1, maximum = 32767\<rparr>]\<rparr>)"
  by (simp add: sem_world_eq cond_signal_def ReleaseSemaphore_def logged_def
      windows_build_def idle_world_def)

lemma cond_signal_example_fail:
  "cond_signal windows_build friendly_os 40 idle_world
     = (- 1, idle_world\<lparr>trace := [ReleaseSemaphore_call 0 1]\<rparr>)"
  by (simp add: cond_signal_def ReleaseSemaphore_def logged_def windows_build_def idle_world_def)

text \<open>
  C8. \<open>cond_signal\<close> calls the wake primitive exactly once. On the Windows path its
  result is nonzero exactly when \<^verbatim>\<open>ReleaseSemaphore\<close> returned FALSE; the result is then -1
  and no semaphore has changed, and otherwise it is 0 and the semaphore of the condition
  variable has gained exactly one permit. On the POSIX path the result is the status of
  \<^verbatim>\<open>pthread_cond_signal\<close>, unchanged.
\<close>

theorem cond_signal_status:
  "trace (snd (cond_signal cfg env cond w)) =
     trace w @ [if win32 cfg then ReleaseSemaphore_call (cond_sem w cond) 1
                else pthread_cond_signal_call cond] \<and>
   (win32 cfg \<longrightarrow>
      (fst (cond_signal cfg env cond w) \<noteq> 0
         \<longleftrightarrow> fst (ReleaseSemaphore (cond_sem w cond) 1 w) = 0) \<and>
      (fst (cond_signal cfg env cond w) \<noteq> 0 \<longrightarrow>
         fst (cond_signal cfg env cond w) = - 1 \<and>
         semaphores (snd (cond_signal cfg env cond w)) = semaphores w) \<and>
      (fst (cond_signal cfg env cond w) = 0 \<longrightarrow>
         (\<exists>s. semaphores w (cond_sem w cond) = Some s \<and>
              semaphores (snd (cond_signal cfg env cond w)) =
                (semaphores w)(cond_sem w cond \<mapsto> s\<lparr>permits := permits s + 1\<rparr>)))) \<and>
   (\<not> win32 cfg \<longrightarrow>
      fst (cond_signal cfg env cond w) = pthread_cond_signal_returns env)"
  by (auto simp: cond_signal_def ReleaseSemaphore_def pthread_cond_signal_def logged_def
      Let_def split: option.split)

theorem cond_signal_status_witness:
  "win32 windows_build \<and>
   fst (cond_signal windows_build friendly_os 40 sem_world) = 0 \<and>
   semaphores sem_world (cond_sem sem_world 40) = Some \<lparr>permits = 0, maximum = 32767\<rparr> \<and>
   semaphores (snd (cond_signal windows_build friendly_os 40 sem_world)) (cond_sem sem_world 40)
     = Some \<lparr>permits = 1, maximum = 32767\<rparr> \<and>
   trace (snd (cond_signal windows_build friendly_os 40 sem_world))
     = trace sem_world @ [ReleaseSemaphore_call (cond_sem sem_world 40) 1] \<and>
   fst (ReleaseSemaphore (cond_sem idle_world 40) 1 idle_world) = 0 \<and>
   fst (cond_signal windows_build friendly_os 40 idle_world) = - 1 \<and>
   \<not> win32 posix_build \<and>
   fst (cond_signal posix_build (friendly_os\<lparr>pthread_cond_signal_returns := 22\<rparr>) 40 idle_world) = 22"
proof -
  have w: "win32 windows_build" "\<not> win32 posix_build"
    by (simp_all add: windows_build_def posix_build_def)
  have ok: "fst (cond_signal windows_build friendly_os 40 sem_world) = 0"
    by (simp add: cond_signal_example_ok)
  have bad: "fst (cond_signal windows_build friendly_os 40 idle_world) \<noteq> 0"
    by (simp add: cond_signal_example_fail)
  note a = cond_signal_status [of windows_build friendly_os 40 sem_world]
  note b = cond_signal_status [of windows_build friendly_os 40 idle_world]
  note c = cond_signal_status
    [of posix_build "friendly_os\<lparr>pthread_cond_signal_returns := 22\<rparr>" 40 idle_world]
  from a w ok obtain s where s: "semaphores sem_world (cond_sem sem_world 40) = Some s"
    "semaphores (snd (cond_signal windows_build friendly_os 40 sem_world)) =
       (semaphores sem_world)(cond_sem sem_world 40 \<mapsto> s\<lparr>permits := permits s + 1\<rparr>)"
    by blast
  have s0: "semaphores sem_world (cond_sem sem_world 40) = Some \<lparr>permits = 0, maximum = 32767\<rparr>"
    by (simp add: sem_world_eq idle_world_def)
  have s1: "semaphores (snd (cond_signal windows_build friendly_os 40 sem_world))
              (cond_sem sem_world 40) = Some \<lparr>permits = 1, maximum = 32767\<rparr>"
    using s s0 by auto
  have tr: "trace (snd (cond_signal windows_build friendly_os 40 sem_world))
     = trace sem_world @ [ReleaseSemaphore_call (cond_sem sem_world 40) 1]"
    using a w by simp
  have f: "fst (ReleaseSemaphore (cond_sem idle_world 40) 1 idle_world) = 0"
    using b w bad by blast
  have f1: "fst (cond_signal windows_build friendly_os 40 idle_world) = - 1"
    using b w bad by blast
  have p: "fst (cond_signal posix_build (friendly_os\<lparr>pthread_cond_signal_returns := 22\<rparr>) 40 idle_world) = 22"
    using c w by simp
  show ?thesis using w ok s0 s1 tr f f1 p by blast
qed

subsection \<open>Wait\<close>

text \<open>
  The mutex after \<open>cond_wait\<close>: the POSIX path leaves the caller owning it as before,
  the Windows path has released it (line 182) and never takes it again; there is no
  \<^verbatim>\<open>mutex_lock\<close> after the \<^verbatim>\<open>WaitForSingleObject\<close> of line 183.
\<close>

lemma cond_wait_posix_keeps:
  "\<not> win32 cfg \<Longrightarrow>
   mutex_owned (snd (cond_wait cfg env cond mutex w)) mutex = mutex_owned w mutex"
  by (simp add: cond_wait_def pthread_cond_wait_def logged_def)

lemma cond_wait_windows_releases:
  "win32 cfg \<Longrightarrow> \<not> mutex_owned (snd (cond_wait cfg env cond mutex w)) mutex"
  by (simp add: cond_wait_def mutex_unlock_def LeaveCriticalSection_def split_def Let_def
      mutex_owned_WaitForSingleObject logged_def)

text \<open>
  C1. The code at a failing input. A Windows caller locks the mutex at address 48 and
  calls \<open>cond_wait\<close> on the condition variable at address 40; the wait on the semaphore
  succeeds. \<open>cond_wait\<close> returns 0, and the caller does not own the mutex: the primitives
  called are \<^verbatim>\<open>LeaveCriticalSection\<close> and \<^verbatim>\<open>WaitForSingleObject\<close> and nothing after them. The
  same call on the POSIX path returns with the mutex owned.
\<close>

theorem cond_wait_windows_mutex_not_reacquired:
  "mutex_owned (mutex_lock windows_build 48 sem_world) 48 \<and>
   fst (cond_wait windows_build friendly_os 40 48 (mutex_lock windows_build 48 sem_world)) = 0 \<and>
   \<not> mutex_owned (snd (cond_wait windows_build friendly_os 40 48
                          (mutex_lock windows_build 48 sem_world))) 48 \<and>
   trace (snd (cond_wait windows_build friendly_os 40 48 (mutex_lock windows_build 48 sem_world)))
     = [CreateSemaphore_call 0 32767, EnterCriticalSection_call 48,
        LeaveCriticalSection_call 48, WaitForSingleObject_call 128 INFINITE] \<and>
   mutex_owned (snd (cond_wait posix_build friendly_os 40 48
                       (mutex_lock posix_build 48 idle_world))) 48"
  by (simp add: sem_world_eq cond_wait_def mutex_lock_def mutex_unlock_def
      EnterCriticalSection_def LeaveCriticalSection_def WaitForSingleObject_def
      pthread_mutex_lock_def pthread_cond_wait_def logged_def Let_def
      windows_build_def posix_build_def idle_world_def friendly_os_def)

subsection \<open>Timed wait\<close>

text \<open>
  The result of \<open>cond_wait_timeout\<close>: the Windows path maps both \<open>WAIT_OBJECT_0\<close> and
  \<open>WAIT_TIMEOUT\<close> to 0, the POSIX path returns the status of \<^verbatim>\<open>pthread_cond_timedwait\<close> as
  it is, \<^verbatim>\<open>ETIMEDOUT\<close> included.
\<close>

lemma cond_wait_timeout_windows:
  "win32 cfg \<Longrightarrow>
   fst (cond_wait_timeout cfg env cond mutex timeout_ms w) =
     (if WaitForSingleObject_returns env = WAIT_OBJECT_0
         \<or> WaitForSingleObject_returns env = WAIT_TIMEOUT then 0 else - 1)"
  by (simp add: cond_wait_timeout_def split_def Let_def fst_WaitForSingleObject)

lemma cond_wait_timeout_posix_passes_through:
  "\<not> win32 cfg \<Longrightarrow>
   fst (cond_wait_timeout cfg env cond mutex timeout_ms w) = pthread_cond_timedwait_returns env"
  by (simp add: cond_wait_timeout_def pthread_cond_timedwait_def gettimeofday_def split_def)

lemma cond_wait_timeout_posix_trace:
  "\<not> win32 cfg \<Longrightarrow>
   trace (snd (cond_wait_timeout cfg env cond mutex timeout_ms w)) =
     trace w @ [gettimeofday_call,
                pthread_cond_timedwait_call cond mutex
                  (deadline (gettimeofday_returns env) timeout_ms)]"
  by (simp add: cond_wait_timeout_def pthread_cond_timedwait_def gettimeofday_def logged_def)

text \<open>
  C2. The code at a failing input. A POSIX caller waits 250 ms and no signal arrives:
  \<^verbatim>\<open>pthread_cond_timedwait\<close> returns \<^verbatim>\<open>ETIMEDOUT\<close>, and \<open>cond_wait_timeout\<close> returns that value,
  110, not 0. The same timeout on the Windows path (\<open>WAIT_TIMEOUT\<close>) returns 0.
\<close>

theorem cond_wait_timeout_posix_timeout_nonzero:
  "cond_wait_timeout posix_build (friendly_os\<lparr>pthread_cond_timedwait_returns := ETIMEDOUT\<rparr>)
      40 48 250 (mutex_lock posix_build 48 idle_world)
     = (110, idle_world\<lparr>trace := [pthread_mutex_lock_call 48, gettimeofday_call,
            pthread_cond_timedwait_call 40 48 \<lparr>ts_tv_sec = 1700000001, ts_tv_nsec = 249999000\<rparr>],
          mutex_owned := (\<lambda>_. False)(48 := True)\<rparr>) \<and>
   fst (cond_wait_timeout windows_build (friendly_os\<lparr>WaitForSingleObject_returns := WAIT_TIMEOUT\<rparr>)
      40 48 250 (mutex_lock windows_build 48 sem_world)) = 0"
  by (simp add: sem_world_eq cond_wait_timeout_def mutex_lock_def mutex_unlock_def
      EnterCriticalSection_def LeaveCriticalSection_def WaitForSingleObject_def
      pthread_mutex_lock_def pthread_cond_timedwait_def gettimeofday_def logged_def Let_def
      windows_build_def posix_build_def idle_world_def friendly_os_def ETIMEDOUT_def
      WAIT_TIMEOUT_def WAIT_OBJECT_0_def
      deadline_def long_div_def long_rem_def signed_divide_int_def signed_modulo_int_def)

subsection \<open>The deadline of the POSIX timed wait\<close>

lemma sint_long_of_int:
  "- (2 ^ 63) \<le> k \<Longrightarrow> k < 2 ^ 63 \<Longrightarrow> sint (word_of_int k :: c_long) = k"
  by (simp add: sint_sbintrunc' signed_take_bit_int_eq_self)

lemma ucast_uint_long: "(ucast (x :: c_uint) :: c_long) = word_of_int (int (unat x))"
  by (simp add: unsigned_ucast_eq)

lemma ucast_long_of_int:
  "int (unat (y :: c_uint)) = k \<Longrightarrow> (ucast y :: c_long) = word_of_int k"
  by (erule subst) (rule ucast_uint_long)

lemma unat_ms_div: "unat ((t :: c_uint) div 1000) = unat t div 1000"
  by (simp add: unat_div)

text \<open>The product is at most 999000000, so it does not wrap in 32 bits.\<close>

lemma unat_ms_frac:
  "unat (1000 * 1000 * ((t :: c_uint) mod 1000)) = 1000000 * (unat t mod 1000)"
proof -
  have m: "unat (t mod 1000) = unat t mod 1000" by (simp add: unat_mod)
  have "unat t mod 1000 < 1000" by simp
  then have b: "1000000 * (unat t mod 1000) < 2 ^ 32" by simp
  have "unat (1000000 * (t mod 1000)) = unat (1000000 :: c_uint) * unat (t mod 1000)"
    using b m by (subst unat_mult_lem [THEN iffD1]) simp_all
  then show ?thesis by (simp add: m)
qed

lemma frac_bounds:
  "0 \<le> u \<Longrightarrow> u < 1000000 \<Longrightarrow> 0 \<le> r \<Longrightarrow> r < 1000 \<Longrightarrow>
   0 \<le> u * 1000 + 1000000 * r \<and> u * 1000 + 1000000 * r < (2000000000 :: int)"
  by linarith

lemma sdiv_nonneg: "0 \<le> (k :: int) \<Longrightarrow> 0 < l \<Longrightarrow> k sdiv l = k div l"
  by (cases "k = 0") (simp_all add: signed_divide_int_def)

lemma smod_nonneg: "0 \<le> (k :: int) \<Longrightarrow> 0 < l \<Longrightarrow> k smod l = k mod l"
  by (cases "k = 0") (simp_all add: signed_modulo_int_def)

text \<open>The two fields of the deadline as integers reduced to 64 bits.\<close>

lemma deadline_ints:
  fixes now :: timeval and timeout_ms :: c_uint
  assumes S: "S = sint (tv_sec now)" and u: "u = sint (tv_usec now)"
    and q: "q = int (unat timeout_ms) div 1000" and r: "r = int (unat timeout_ms) mod 1000"
    and n0: "n0 = u * 1000 + 1000000 * r"
    and nb: "0 \<le> n0" "n0 < 2000000000"
  shows "ts_tv_sec (deadline now timeout_ms) = word_of_int (S + q + n0 div 1000000000)"
    and "ts_tv_nsec (deadline now timeout_ms) = word_of_int (n0 mod 1000000000)"
proof -
  have frac: "(ucast (1000 * 1000 * (timeout_ms mod 1000)) :: c_long) = word_of_int (1000000 * r)"
    by (rule ucast_long_of_int) (simp only: unat_ms_frac r, simp add: zmod_int)
  have whole: "(ucast (timeout_ms div 1000) :: c_long) = word_of_int q"
    by (rule ucast_long_of_int) (simp only: unat_ms_div q zdiv_int of_nat_numeral)
  have usec: "tv_usec now = word_of_int u" by (simp add: u)
  have sec: "tv_sec now = word_of_int S" by (simp add: S)
  have nsec0: "tv_usec now * 1000 + ucast (1000 * 1000 * (timeout_ms mod 1000))
                 = (word_of_int n0 :: c_long)"
    unfolding frac usec by (simp add: n0)
  have sn0: "sint (word_of_int n0 :: c_long) = n0"
    using nb by (intro sint_long_of_int) simp_all
  have bil: "sint (1000 * 1000 * 1000 :: c_long) = 1000000000" by simp
  have d: "long_div (word_of_int n0) (1000 * 1000 * 1000) = word_of_int (n0 div 1000000000)"
    unfolding long_div_def sn0 bil using nb(1) by (simp add: sdiv_nonneg)
  have m: "long_rem (word_of_int n0) (1000 * 1000 * 1000) = word_of_int (n0 mod 1000000000)"
    unfolding long_rem_def sn0 bil using nb(1) by (simp add: smod_nonneg)
  show "ts_tv_sec (deadline now timeout_ms) = word_of_int (S + q + n0 div 1000000000)"
    unfolding deadline_def Let_def nsec0 d whole sec by simp
  show "ts_tv_nsec (deadline now timeout_ms) = word_of_int (n0 mod 1000000000)"
    unfolding deadline_def Let_def nsec0 m by simp
qed

lemma deadline_sum:
  assumes "0 \<le> sint (tv_usec now)" and "sint (tv_usec now) < 1000000"
    and "sint (tv_sec now)
           + (sint (tv_usec now) * 1000 + int (unat timeout_ms) * 1000000) div 1000000000 < 2 ^ 63"
  shows "sint (ts_tv_sec (deadline now timeout_ms)) * 1000000000
           + sint (ts_tv_nsec (deadline now timeout_ms))
         = sint (tv_sec now) * 1000000000 + sint (tv_usec now) * 1000
           + int (unat timeout_ms) * 1000000
       \<and> 0 \<le> sint (ts_tv_nsec (deadline now timeout_ms))
       \<and> sint (ts_tv_nsec (deadline now timeout_ms)) < 1000000000"
proof -
  define S where "S = sint (tv_sec now)"
  define u where "u = sint (tv_usec now)"
  define t where "t = int (unat timeout_ms)"
  define q where "q = t div 1000"
  define r where "r = t mod 1000"
  define n0 where "n0 = u * 1000 + 1000000 * r"
  define c where "c = n0 div 1000000000"
  define m where "m = n0 mod 1000000000"
  have u: "0 \<le> u" "u < 1000000" using assms by (simp_all add: u_def)
  have t0: "0 \<le> t" by (simp add: t_def)
  have r: "0 \<le> r" "r < 1000" by (simp_all add: r_def)
  have n0: "0 \<le> n0" "n0 < 2000000000"
    unfolding n0_def using frac_bounds [OF u r] by blast+
  have tqr: "t = q * 1000 + r" by (simp add: q_def r_def)
  have ncm: "n0 = c * 1000000000 + m" by (simp add: c_def m_def)
  have split: "u * 1000 + t * 1000000 = q * 1000000000 + n0"
    unfolding n0_def tqr by (simp add: algebra_simps)
  have carry: "(u * 1000 + t * 1000000) div 1000000000 = q + c"
    unfolding split c_def by simp
  have Slo: "- (2 ^ 63) \<le> S" using sint_ge [of "tv_sec now"] by (simp add: S_def)
  have c0: "0 \<le> c" unfolding c_def using n0(1) by simp
  have q0: "0 \<le> q" unfolding q_def using t0 by simp
  have hi: "S + q + c < 2 ^ 63"
    using assms(3) carry by (simp add: S_def u_def t_def)
  have lo: "- (2 ^ 63) \<le> S + q + c"
    using Slo c0 q0 by linarith
  have m: "0 \<le> m" "m < 1000000000" by (simp_all add: m_def)
  have m63: "- (2 ^ 63) \<le> m" "m < 2 ^ 63" using m by simp_all
  note di = deadline_ints [OF S_def u_def q_def [unfolded t_def] r_def [unfolded t_def] n0_def n0]
  have sec: "sint (ts_tv_sec (deadline now timeout_ms)) = S + q + c"
    unfolding di(1) c_def [symmetric] by (rule sint_long_of_int [OF lo hi])
  have nsec: "sint (ts_tv_nsec (deadline now timeout_ms)) = m"
    unfolding di(2) m_def [symmetric] by (rule sint_long_of_int [OF m63])
  have "(S + q + c) * 1000000000 + m = S * 1000000000 + (q * 1000000000 + n0)"
    unfolding ncm by (simp add: algebra_simps)
  also have "\<dots> = S * 1000000000 + u * 1000 + t * 1000000"
    using split by simp
  finally show ?thesis
    using m by (simp add: sec nsec S_def u_def t_def)
qed

text \<open>
  C9, as stated, fails where the seconds overflow \<^verbatim>\<open>time_t\<close>. At the start time
  (2^63 - 1, 0), whose microseconds are in range, and a timeout of 1000 ms, the computed
  deadline is not the start time plus one second: its seconds have wrapped to -2^63.
\<close>

theorem deadline_overflow:
  "0 \<le> sint (tv_usec \<lparr>tv_sec = 9223372036854775807, tv_usec = 0\<rparr>) \<and>
   sint (tv_usec \<lparr>tv_sec = 9223372036854775807, tv_usec = 0\<rparr>) < 1000000 \<and>
   sint (ts_tv_sec (deadline \<lparr>tv_sec = 9223372036854775807, tv_usec = 0\<rparr> 1000)) * 1000000000
     + sint (ts_tv_nsec (deadline \<lparr>tv_sec = 9223372036854775807, tv_usec = 0\<rparr> 1000))
   \<noteq> sint (tv_sec \<lparr>tv_sec = 9223372036854775807, tv_usec = 0\<rparr>) * 1000000000
     + sint (tv_usec \<lparr>tv_sec = 9223372036854775807, tv_usec = 0\<rparr>) * 1000
     + int (unat (1000 :: c_uint)) * 1000000"
  by (simp add: deadline_def long_div_def long_rem_def signed_divide_int_def
      signed_modulo_int_def)

text \<open>
  C9, amended. On the POSIX path \<open>cond_wait_timeout\<close> reads the clock and then calls
  \<^verbatim>\<open>pthread_cond_timedwait\<close> with the deadline \<open>ts\<close> computed from the clock value \<open>now\<close>. For
  every \<open>now\<close> with 0 \<le> \<^verbatim>\<open>tv_usec\<close> < 10^6 and every \<open>timeout_ms\<close> such that the seconds of
  the exact deadline still fit \<^verbatim>\<open>time_t\<close> (are below 2^63), \<open>ts\<close> is the start time plus exactly
  \<open>timeout_ms\<close> milliseconds, counted in nanoseconds, and 0 \<le> \<^verbatim>\<open>tv_nsec\<close> < 10^9.
\<close>

theorem deadline_exact:
  assumes "\<not> win32 cfg" and "now = gettimeofday_returns env"
    and "ts = deadline now timeout_ms"
    and "0 \<le> sint (tv_usec now)" and "sint (tv_usec now) < 1000000"
    and "sint (tv_sec now)
           + (sint (tv_usec now) * 1000 + int (unat timeout_ms) * 1000000) div 1000000000 < 2 ^ 63"
  shows "trace (snd (cond_wait_timeout cfg env cond mutex timeout_ms w)) =
           trace w @ [gettimeofday_call, pthread_cond_timedwait_call cond mutex ts]
       \<and> sint (ts_tv_sec ts) * 1000000000 + sint (ts_tv_nsec ts)
         = sint (tv_sec now) * 1000000000 + sint (tv_usec now) * 1000
           + int (unat timeout_ms) * 1000000
       \<and> 0 \<le> sint (ts_tv_nsec ts) \<and> sint (ts_tv_nsec ts) < 1000000000"
  unfolding assms(3)
  using cond_wait_timeout_posix_trace [OF assms(1), of env cond mutex timeout_ms w]
    deadline_sum [OF assms(4,5,6)]
  by (simp add: assms(2))

theorem deadline_exact_witness:
  "\<not> win32 posix_build \<and>
   0 \<le> sint (tv_usec (gettimeofday_returns friendly_os)) \<and>
   sint (tv_usec (gettimeofday_returns friendly_os)) < 1000000 \<and>
   sint (tv_sec (gettimeofday_returns friendly_os))
     + (sint (tv_usec (gettimeofday_returns friendly_os)) * 1000
        + int (unat (4294967295 :: c_uint)) * 1000000) div 1000000000 < 2 ^ 63 \<and>
   deadline (gettimeofday_returns friendly_os) 4294967295
     = \<lparr>ts_tv_sec = 1704294968, ts_tv_nsec = 294999000\<rparr> \<and>
   trace (snd (cond_wait_timeout posix_build friendly_os 40 48 4294967295 idle_world)) =
     [gettimeofday_call,
      pthread_cond_timedwait_call 40 48 \<lparr>ts_tv_sec = 1704294968, ts_tv_nsec = 294999000\<rparr>] \<and>
   sint (ts_tv_sec (deadline (gettimeofday_returns friendly_os) 4294967295)) * 1000000000
     + sint (ts_tv_nsec (deadline (gettimeofday_returns friendly_os) 4294967295))
     = 1704294968294999000"
proof -
  have p: "\<not> win32 posix_build" by (simp add: posix_build_def)
  have now: "gettimeofday_returns friendly_os = \<lparr>tv_sec = 1700000000, tv_usec = 999999\<rparr>"
    by (simp add: friendly_os_def)
  have u: "0 \<le> sint (tv_usec (gettimeofday_returns friendly_os))"
    "sint (tv_usec (gettimeofday_returns friendly_os)) < 1000000"
    by (simp_all add: now)
  have fit: "sint (tv_sec (gettimeofday_returns friendly_os))
     + (sint (tv_usec (gettimeofday_returns friendly_os)) * 1000
        + int (unat (4294967295 :: c_uint)) * 1000000) div 1000000000 < 2 ^ 63"
    by (simp add: now)
  have d: "deadline (gettimeofday_returns friendly_os) 4294967295
     = \<lparr>ts_tv_sec = 1704294968, ts_tv_nsec = 294999000\<rparr>"
    by (simp add: now deadline_def long_div_def long_rem_def signed_divide_int_def
        signed_modulo_int_def)
  have e: "trace idle_world = []" by (simp add: idle_world_def)
  show ?thesis
    using deadline_exact [OF p refl refl u fit, of 40 48 idle_world] p u fit
    by (simp add: d e)
qed

section \<open>thread_once\<close>

subsection \<open>One step keeps the invariant\<close>

lemma thread_step_pcs: "pcs (snd (thread_step cfg p s)) = pcs s"
  by (cases p) (simp_all add: InterlockedExchange_def split: pthread_once_t.split)

lemma local_ok_pcs [simp]: "local_ok cfg (s\<lparr>pcs := xs\<rparr>) p = local_ok cfg s p"
  by (cases p) (simp_all add: fresh_def completed_def marked_def)

lemma quiet_pcs [simp]: "quiet cfg (s\<lparr>pcs := xs\<rparr>) = quiet cfg s"
  by (simp add: quiet_def)

lemma settled_pcs [simp]: "settled cfg (s\<lparr>pcs := xs\<rparr>) = settled cfg s"
  by (simp add: settled_def fresh_def completed_def)

lemma step_self:
  "local_ok cfg s p \<Longrightarrow> (quiet cfg s \<longrightarrow> settled cfg s) \<Longrightarrow>
   local_ok cfg (snd (thread_step cfg p s)) (fst (thread_step cfg p s))"
  by (cases p)
    (auto simp: InterlockedExchange_def quiet_def settled_def fresh_def completed_def marked_def
      split: pthread_once_t.split if_splits)

lemma step_other:
  "local_ok cfg s p \<Longrightarrow> local_ok cfg s q \<Longrightarrow> \<not> (inside cfg p \<and> inside cfg q) \<Longrightarrow>
   (quiet cfg s \<longrightarrow> \<not> inside cfg q) \<Longrightarrow>
   local_ok cfg (snd (thread_step cfg p s)) q"
  by (cases p; cases q)
    (auto simp: InterlockedExchange_def quiet_def fresh_def completed_def marked_def
      split: pthread_once_t.split if_splits)

lemma step_enters:
  "local_ok cfg s p \<Longrightarrow> \<not> inside cfg p \<Longrightarrow> inside cfg (fst (thread_step cfg p s)) \<Longrightarrow>
   quiet cfg s"
  by (cases p)
    (auto simp: InterlockedExchange_def quiet_def split: pthread_once_t.splits if_splits)

lemma step_quiet:
  "local_ok cfg s p \<Longrightarrow> (quiet cfg s \<longrightarrow> settled cfg s \<and> \<not> inside cfg p) \<Longrightarrow>
   quiet cfg (snd (thread_step cfg p s)) \<Longrightarrow>
   settled cfg (snd (thread_step cfg p s)) \<and> \<not> inside cfg (fst (thread_step cfg p s)) \<and>
   (quiet cfg s \<or> inside cfg p)"
  by (cases p)
    (auto simp: InterlockedExchange_def quiet_def settled_def fresh_def completed_def marked_def
      split: pthread_once_t.splits if_splits)

lemma step_lock:
  "lock s = 0 \<or> lock s = 1 \<Longrightarrow>
   lock (snd (thread_step cfg p s)) = 0 \<or> lock (snd (thread_step cfg p s)) = 1"
  by (cases p) (auto simp: InterlockedExchange_def split: pthread_once_t.splits)


lemma step_calls:
  "local_ok cfg s p \<Longrightarrow> init_calls s \<le> 1 \<Longrightarrow> init_calls (snd (thread_step cfg p s)) \<le> 1"
  by (cases p) (auto simp: InterlockedExchange_def fresh_def split: pthread_once_t.splits)

lemma once_inv_start: "once_inv cfg (once_start K)"
  by (simp add: once_inv_def once_start_def quiet_def settled_def fresh_def)

lemma once_inv_step:
  assumes inv: "once_inv cfg s"
  shows "once_inv cfg (step cfg i s)"
proof (cases "i < length (pcs s)")
  case False
  then show ?thesis using inv by (simp add: step_def)
next
  case i: True
  define n where "n = length (pcs s)"
  define p where "p = pcs s ! i"
  define p' where "p' = fst (thread_step cfg p s)"
  define s' where "s' = snd (thread_step cfg p s)"
  have ok: "\<And>j. j < n \<Longrightarrow> local_ok cfg s (pcs s ! j)"
    and excl: "\<And>j k. j < n \<Longrightarrow> k < n \<Longrightarrow> inside cfg (pcs s ! j) \<Longrightarrow> inside cfg (pcs s ! k) \<Longrightarrow> j = k"
    and q_settled: "quiet cfg s \<Longrightarrow> settled cfg s"
    and q_none: "\<And>j. quiet cfg s \<Longrightarrow> j < n \<Longrightarrow> \<not> inside cfg (pcs s ! j)"
    and lk: "lock s = 0 \<or> lock s = 1"
    and calls: "init_calls s \<le> 1"
    using inv by (auto simp: once_inv_def n_def)
  have i_n: "i < n" using i by (simp add: n_def)
  have ok_p: "local_ok cfg s p" using ok [OF i_n] by (simp add: p_def)
  have pcs': "pcs s' = pcs s" by (simp add: s'_def thread_step_pcs)
  have new: "step cfg i s = s'\<lparr>pcs := (pcs s)[i := p']\<rparr>"
    using i by (simp add: step_def split_def Let_def p_def p'_def s'_def thread_step_pcs)
  have nth_new: "\<And>j. j < n \<Longrightarrow> (pcs s)[i := p'] ! j = (if j = i then p' else pcs s ! j)"
    by (simp add: n_def nth_list_update)
  have others: "\<And>j. j < n \<Longrightarrow> j \<noteq> i \<Longrightarrow> inside cfg p \<Longrightarrow> \<not> inside cfg (pcs s ! j)"
    using excl [OF _ i_n] by (auto simp: p_def)
  have c1: "local_ok cfg s' ((pcs s)[i := p'] ! j)" if j: "j < n" for j
  proof (cases "j = i")
    case True
    have "local_ok cfg s' p'"
      unfolding s'_def p'_def using ok_p q_settled by (intro step_self) auto
    then show ?thesis using True j by (simp add: nth_new)
  next
    case False
    have "local_ok cfg s' (pcs s ! j)"
      unfolding s'_def using ok_p ok [OF j] others [OF j False] q_none [OF _ j]
      by (intro step_other) auto
    then show ?thesis using False j by (simp add: nth_new)
  qed
  have enter: "quiet cfg s" if "inside cfg p'" "\<not> inside cfg p"
    using step_enters [OF ok_p that(2)] that(1) by (simp add: p'_def)
  have p'_alone: "\<not> inside cfg (pcs s ! k)" if "inside cfg p'" and k: "k < n" "k \<noteq> i" for k
  proof (cases "inside cfg p")
    case True
    then show ?thesis using others [OF k] by simp
  next
    case False
    then show ?thesis using q_none [OF enter [OF that(1) False] k(1)] by simp
  qed
  have c2: "j = k" if "j < n" "k < n" "inside cfg ((pcs s)[i := p'] ! j)"
    "inside cfg ((pcs s)[i := p'] ! k)" for j k
  proof (cases "j = i"; cases "k = i")
    assume "j = i" "k = i" then show ?thesis by simp
  next
    assume "j = i" "k \<noteq> i"
    then show ?thesis using that p'_alone [of k] by (simp add: nth_new)
  next
    assume "j \<noteq> i" "k = i"
    then show ?thesis using that p'_alone [of j] by (simp add: nth_new)
  next
    assume "j \<noteq> i" "k \<noteq> i"
    then show ?thesis using that excl [of j k] by (simp add: nth_new)
  qed
  have c3: "settled cfg s' \<and> (\<forall>j < n. \<not> inside cfg ((pcs s)[i := p'] ! j))" if q: "quiet cfg s'"
  proof -
    have pre: "quiet cfg s \<longrightarrow> settled cfg s \<and> \<not> inside cfg p"
      using q_settled q_none [OF _ i_n] by (auto simp: p_def)
    have sq: "settled cfg s' \<and> \<not> inside cfg p' \<and> (quiet cfg s \<or> inside cfg p)"
      using step_quiet [OF ok_p pre] q by (simp add: s'_def p'_def)
    have "\<not> inside cfg ((pcs s)[i := p'] ! j)" if j: "j < n" for j
    proof (cases "j = i")
      case True
      then show ?thesis using sq j by (simp add: nth_new)
    next
      case False
      have "\<not> inside cfg (pcs s ! j)"
        using sq q_none [OF _ j] others [OF j False] by blast
      then show ?thesis using False j by (simp add: nth_new)
    qed
    then show ?thesis using sq by blast
  qed
  have c4: "lock s' = 0 \<or> lock s' = 1"
    unfolding s'_def using lk by (rule step_lock)
  have c5: "init_calls s' \<le> 1"
    unfolding s'_def using ok_p calls by (rule step_calls)
  show ?thesis
    unfolding new once_inv_def using c1 c2 c3 c4 c5 by (simp add: n_def)
qed

lemma once_inv_run: "once_inv cfg s \<Longrightarrow> once_inv cfg (run cfg sched s)"
  by (induction sched arbitrary: s) (simp_all add: once_inv_step)

lemma length_pcs_step: "length (pcs (step cfg i s)) = length (pcs s)"
  by (simp add: step_def split_def Let_def thread_step_pcs)

lemma length_pcs_run: "length (pcs (run cfg sched s)) = length (pcs s)"
  by (induction sched arbitrary: s) (simp_all add: length_pcs_step)

lemma reachable_inv: "once_inv cfg (run cfg sched (once_start K))"
  by (rule once_inv_run) (rule once_inv_start)

lemma reachable_length: "length (pcs (run cfg sched (once_start K))) = K"
  by (simp add: length_pcs_run once_start_def)

lemma reachable_local_ok:
  "i < K \<Longrightarrow> local_ok cfg (run cfg sched (once_start K)) (pcs (run cfg sched (once_start K)) ! i)"
  using reachable_inv [of cfg sched K] by (simp add: once_inv_def reachable_length)


lemma reachable_calls: "init_calls (run cfg sched (once_start K)) \<le> 1"
  using reachable_inv [of cfg sched K] by (simp add: once_inv_def)

lemma reachable_lock:
  "lock (run cfg sched (once_start K)) = 0 \<or> lock (run cfg sched (once_start K)) = 1"
  using reachable_inv [of cfg sched K] by (simp add: once_inv_def)

lemma reachable_excl:
  "i < K \<Longrightarrow> j < K \<Longrightarrow> inside cfg (pcs (run cfg sched (once_start K)) ! i) \<Longrightarrow>
   inside cfg (pcs (run cfg sched (once_start K)) ! j) \<Longrightarrow> i = j"
  using reachable_inv [of cfg sched K] by (simp add: once_inv_def reachable_length)

subsection \<open>Exactly once\<close>

lemma race_windows:
  "run windows_build [0, 1, 0, 1, 0, 0, 1, 0, 0, 1, 1, 1, 1] (once_start 2) =
     \<lparr>lock = 0, state = 1, ponce = ONCE_INIT, counter = 1, init_calls = 1, init_returns = 1,
      pcs = [Returned, Returned]\<rparr>"
  by code_simp

lemma race_posix:
  "run posix_build [0, 1, 0, 1, 0, 0, 1] (once_start 2) =
     \<lparr>lock = 0, state = 0, ponce = ONCE_DONE, counter = 1, init_calls = 1, init_returns = 1,
      pcs = [Returned, Returned]\<rparr>"
  by code_simp

text \<open>
  C3. Let \<open>K \<ge> 1\<close> threads call \<open>thread_once\<close> on a guard that has not run, with an
  initializer that increments a counter from 0, and let \<open>s\<close> be the state after any
  schedule of their steps, on either path. If all \<open>K\<close> calls have returned in \<open>s\<close>, the
  counter is 1 and the initializer has been entered once and has returned once. A single
  call that has returned already implies the same, so no call returns before the
  initializer has returned; and the initializer is never entered a second time.
\<close>

theorem thread_once_exactly_once:
  assumes "1 \<le> K" and "s = run cfg sched (once_start K)"
  shows "((\<forall>i < K. pcs s ! i = Returned) \<longrightarrow>
            counter s = 1 \<and> init_calls s = 1 \<and> init_returns s = 1) \<and>
         (\<forall>i < K. pcs s ! i = Returned \<longrightarrow>
            counter s = 1 \<and> init_calls s = 1 \<and> init_returns s = 1) \<and>
         init_calls s \<le> 1"
proof -
  have one: "counter s = 1 \<and> init_calls s = 1 \<and> init_returns s = 1"
    if "i < K" "pcs s ! i = Returned" for i
    using reachable_local_ok [OF that(1), of cfg sched] that(2)
    by (simp add: assms(2) completed_def)
  have "0 < K" using assms(1) by simp
  then show ?thesis using one reachable_calls [of cfg sched K] by (auto simp: assms(2))
qed

theorem thread_once_exactly_once_witness:
  "(1 :: nat) \<le> 2 \<and>
   pcs (run windows_build [0, 1, 0, 1, 0, 0, 1, 0, 0, 1, 1, 1, 1] (once_start 2))
     = [Returned, Returned] \<and>
   counter (run windows_build [0, 1, 0, 1, 0, 0, 1, 0, 0, 1, 1, 1, 1] (once_start 2)) = 1 \<and>
   init_calls (run windows_build [0, 1, 0, 1, 0, 0, 1, 0, 0, 1, 1, 1, 1] (once_start 2)) = 1 \<and>
   init_returns (run windows_build [0, 1, 0, 1, 0, 0, 1, 0, 0, 1, 1, 1, 1] (once_start 2)) = 1 \<and>
   pcs (run posix_build [0, 1, 0, 1, 0, 0, 1] (once_start 2)) = [Returned, Returned] \<and>
   counter (run posix_build [0, 1, 0, 1, 0, 0, 1] (once_start 2)) = 1 \<and>
   init_calls (run posix_build [0, 1, 0, 1, 0, 0, 1] (once_start 2)) = 1 \<and>
   init_returns (run posix_build [0, 1, 0, 1, 0, 0, 1] (once_start 2)) = 1"
proof -
  have k: "(1 :: nat) \<le> 2" by simp
  have w: "\<forall>i < 2. pcs (run windows_build [0, 1, 0, 1, 0, 0, 1, 0, 0, 1, 1, 1, 1] (once_start 2)) ! i
                     = Returned"
    unfolding race_windows by (simp add: less_Suc_eq numeral_2_eq_2)
  have p: "\<forall>i < 2. pcs (run posix_build [0, 1, 0, 1, 0, 0, 1] (once_start 2)) ! i = Returned"
    unfolding race_posix by (simp add: less_Suc_eq numeral_2_eq_2)
  have wl: "pcs (run windows_build [0, 1, 0, 1, 0, 0, 1, 0, 0, 1, 1, 1, 1] (once_start 2))
              = [Returned, Returned]"
    unfolding race_windows by simp
  have pl: "pcs (run posix_build [0, 1, 0, 1, 0, 0, 1] (once_start 2)) = [Returned, Returned]"
    unfolding race_posix by simp
  show ?thesis
    using thread_once_exactly_once
        [OF k refl, of windows_build "[0, 1, 0, 1, 0, 0, 1, 0, 0, 1, 1, 1, 1]"]
      thread_once_exactly_once [OF k refl, of posix_build "[0, 1, 0, 1, 0, 0, 1]"] w p k wl pl
    by blast
qed

subsection \<open>The fallback path\<close>

text \<open>
  Line 139 stores 1 in \<^verbatim>\<open>state\<close> before line 140 calls the initializer: after three steps of
  a single caller the field is 1 and the initializer has not been entered. The lock is
  held then, and the field is read only at line 138, by the thread that holds the lock.
\<close>

lemma state_set_before_call:
  "run windows_build [0, 0, 0] (once_start 1) =
     \<lparr>lock = 1, state = 1, ponce = ONCE_INIT, counter = 0, init_calls = 0, init_returns = 0,
      pcs = [CallInit]\<rparr>"
  by code_simp

lemma contended_windows:
  "run windows_build [0, 0, 0, 0, 0, 0, 1, 3] (once_start 4) =
     \<lparr>lock = 1, state = 1, ponce = ONCE_INIT, counter = 1, init_calls = 1, init_returns = 1,
      pcs = [Returned, TestState, Enter, Sleeping]\<rparr>"
  by code_simp

text \<open>
  C4. On the Windows path, in every state \<open>s\<close> that \<open>K\<close> concurrent callers can reach and
  for every caller \<open>i\<close>:
  \<^item> if \<open>i\<close> is about to read the guard's state (line 138) and the state is nonzero, the
    initializer has been entered once and has returned, and the counter is 1: no caller
    observes "run" before the initializer has returned;
  \<^item> the initializer has been entered at most once, and \<open>i\<close> is the only caller between
    taking and releasing the lock if it is there at all;
  \<^item> if \<open>i\<close> is at the exchange of line 135 and the lock is held, its step takes it to
    \<^verbatim>\<open>Sleep(1)\<close> and changes nothing else; from the sleep its step takes it back to the
    exchange; and if the lock is free its step takes the lock and goes on to line 138.
\<close>

theorem thread_once_fallback:
  assumes "win32 cfg" and "s = run cfg sched (once_start K)" and "i < K"
  shows "(pcs s ! i = TestState \<and> state s \<noteq> 0 \<longrightarrow>
            init_calls s = 1 \<and> init_returns s = 1 \<and> counter s = 1) \<and>
         init_calls s \<le> 1 \<and>
         (\<forall>j < K. inside cfg (pcs s ! i) \<and> inside cfg (pcs s ! j) \<longrightarrow> j = i) \<and>
         (pcs s ! i = Enter \<and> lock s \<noteq> 0 \<longrightarrow>
            step cfg i s = s\<lparr>pcs := (pcs s)[i := Sleeping]\<rparr>) \<and>
         (pcs s ! i = Sleeping \<longrightarrow> step cfg i s = s\<lparr>pcs := (pcs s)[i := Enter]\<rparr>) \<and>
         (pcs s ! i = Enter \<and> lock s = 0 \<longrightarrow>
            step cfg i s = s\<lparr>lock := 1, pcs := (pcs s)[i := TestState]\<rparr>)"
proof -
  have len: "i < length (pcs s)" using assms(3) by (simp add: assms(2) reachable_length)
  have lk: "lock s = 0 \<or> lock s = 1" unfolding assms(2) by (rule reachable_lock)
  have a: "init_calls s = 1 \<and> init_returns s = 1 \<and> counter s = 1"
    if "pcs s ! i = TestState" "state s \<noteq> 0"
    using reachable_local_ok [OF assms(3), of cfg sched] that
    by (simp add: assms(2) [symmetric] completed_def)
  have b: "init_calls s \<le> 1" unfolding assms(2) by (rule reachable_calls)
  have x: "j = i" if "j < K" "inside cfg (pcs s ! i)" "inside cfg (pcs s ! j)" for j
    using reachable_excl [OF that(1) assms(3), of cfg sched] that(2,3) by (simp add: assms(2))
  have c: "step cfg i s = s\<lparr>pcs := (pcs s)[i := Sleeping]\<rparr>"
    if "pcs s ! i = Enter" "lock s \<noteq> 0"
    using that lk len assms(1) by (simp add: step_def InterlockedExchange_def)
  have d: "step cfg i s = s\<lparr>pcs := (pcs s)[i := Enter]\<rparr>" if "pcs s ! i = Sleeping"
    using that len by (simp add: step_def)
  have e: "step cfg i s = s\<lparr>lock := 1, pcs := (pcs s)[i := TestState]\<rparr>"
    if "pcs s ! i = Enter" "lock s = 0"
    using that len assms(1) by (simp add: step_def InterlockedExchange_def)
  show ?thesis using a b x c d e by blast
qed

theorem thread_once_fallback_witness:
  "win32 windows_build \<and>
   pcs (run windows_build [0, 0, 0, 0, 0, 0, 1, 3] (once_start 4)) ! 1 = TestState \<and>
   state (run windows_build [0, 0, 0, 0, 0, 0, 1, 3] (once_start 4)) \<noteq> 0 \<and>
   inside windows_build (pcs (run windows_build [0, 0, 0, 0, 0, 0, 1, 3] (once_start 4)) ! 1) \<and>
   init_returns (run windows_build [0, 0, 0, 0, 0, 0, 1, 3] (once_start 4)) = 1 \<and>
   pcs (run windows_build [0, 0, 0, 0, 0, 0, 1, 3] (once_start 4)) ! 2 = Enter \<and>
   lock (run windows_build [0, 0, 0, 0, 0, 0, 1, 3] (once_start 4)) \<noteq> 0 \<and>
   pcs (step windows_build 2 (run windows_build [0, 0, 0, 0, 0, 0, 1, 3] (once_start 4)))
     = [Returned, TestState, Sleeping, Sleeping] \<and>
   pcs (run windows_build [0, 0, 0, 0, 0, 0, 1, 3] (once_start 4)) ! 3 = Sleeping \<and>
   pcs (step windows_build 3 (run windows_build [0, 0, 0, 0, 0, 0, 1, 3] (once_start 4)))
     = [Returned, TestState, Enter, Enter] \<and>
   pcs (run windows_build [] (once_start 4)) ! 0 = Enter \<and>
   lock (run windows_build [] (once_start 4)) = 0 \<and>
   step windows_build 0 (run windows_build [] (once_start 4))
     = (once_start 4)\<lparr>lock := 1, pcs := [TestState, Enter, Enter, Enter]\<rparr>"
proof -
  have w: "win32 windows_build" by (simp add: windows_build_def)
  have i1: "(1 :: nat) < 4" and i2: "(2 :: nat) < 4" and i3: "(3 :: nat) < 4" and i0: "(0 :: nat) < 4"
    by simp_all
  note t1 = thread_once_fallback [OF w refl i1, of "[0, 0, 0, 0, 0, 0, 1, 3]"]
  note t2 = thread_once_fallback [OF w refl i2, of "[0, 0, 0, 0, 0, 0, 1, 3]"]
  note t3 = thread_once_fallback [OF w refl i3, of "[0, 0, 0, 0, 0, 0, 1, 3]"]
  note t0 = thread_once_fallback [OF w refl i0, of "[]"]
  have s0: "pcs (once_start 4) = [Enter, Enter, Enter, Enter]" "lock (once_start 4) = 0"
    by (simp_all add: once_start_def numeral_eq_Suc)
  have a: "init_returns (run windows_build [0, 0, 0, 0, 0, 0, 1, 3] (once_start 4)) = 1"
    using t1 unfolding contended_windows by simp
  have b: "pcs (step windows_build 2 (run windows_build [0, 0, 0, 0, 0, 0, 1, 3] (once_start 4)))
             = [Returned, TestState, Sleeping, Sleeping]"
    using t2 unfolding contended_windows by simp
  have c: "pcs (step windows_build 3 (run windows_build [0, 0, 0, 0, 0, 0, 1, 3] (once_start 4)))
             = [Returned, TestState, Enter, Enter]"
    using t3 unfolding contended_windows by simp
  have d: "step windows_build 0 (run windows_build [] (once_start 4))
             = (once_start 4)\<lparr>lock := 1, pcs := [TestState, Enter, Enter, Enter]\<rparr>"
    using t0 by (simp add: s0)
  show ?thesis
    unfolding contended_windows using w a [unfolded contended_windows]
      b [unfolded contended_windows] c [unfolded contended_windows] d
    by (simp add: s0 windows_build_def)
qed

end
